theory Spec2Isabelle
  imports Main
begin

section \<open>Data model of the mole service\<close>

text \<open>
  The Go structs of the service become records. Go's \<open>int\<close> is a 64-bit integer; the
  ports are only copied, never computed with, so they are modelled as \<open>int\<close>. A Go
  string is a sequence of bytes, here \<open>string\<close>. A slice is a list: the model does not
  tell a nil slice from an empty one.
\<close>

record ServerInfo =
  Addr :: string
  Port :: int
  Token :: string
  Remark :: string
  AutoStart :: bool

record ProxyRule =
  ID :: string
  Enabled :: bool
  ProxyType :: string
  Name :: string
  LocalIP :: string
  LocalPort :: int
  RemotePort :: int
  Domains :: "string list"

record UserConfig =
  ConfigVersion :: string
  LastUpdated :: string
  Server :: ServerInfo
  Proxies :: "ProxyRule list"

text \<open>
  The runtime configuration is built as a \<open>map[string]any\<close>. The values that the
  generator stores are strings, integers, string slices, a \<open>map[string]string\<close> (the
  auth block) and a slice of maps (the proxy entries).
\<close>

datatype anyval =
    VStr string
  | VInt int
  | VStrs "string list"
  | VStrMap "string \<Rightarrow> string option"
  | VMaps "(string \<Rightarrow> anyval option) list"

type_synonym gomap = "string \<Rightarrow> anyval option"

section \<open>Runtime configuration generator\<close>

text \<open>
  The body of the loop of \<open>generateFrpcToml\<close> for one enabled rule: the map literal with
  the four common keys, then one more key chosen by the proxy type.
\<close>

definition proxy_item :: "ProxyRule \<Rightarrow> gomap" where
  "proxy_item p =
     (let item = [''name'' \<mapsto> VStr (Name p),
                  ''type'' \<mapsto> VStr (ProxyType p),
                  ''localIP'' \<mapsto> VStr (LocalIP p),
                  ''localPort'' \<mapsto> VInt (LocalPort p)]
      in if ProxyType p = ''http''
         then item(''customDomains'' \<mapsto> VStrs (Domains p))
         else item(''remotePort'' \<mapsto> VInt (RemotePort p)))"

text \<open>
  The loop \<open>for _, p := range s.config.Proxies\<close>: the second argument is the slice
  \<open>proxies\<close> built so far; a disabled rule is skipped by \<open>continue\<close>, an enabled one is
  appended.
\<close>

fun proxies_loop :: "ProxyRule list \<Rightarrow> gomap list \<Rightarrow> gomap list" where
  "proxies_loop [] proxies = proxies"
| "proxies_loop (p # ps) proxies =
     (if \<not> Enabled p then proxies_loop ps proxies
      else proxies_loop ps (proxies @ [proxy_item p]))"

text \<open>The structure \<open>runCfg\<close> that \<open>generateFrpcToml\<close> hands to the TOML encoder.\<close>

definition build_runCfg :: "UserConfig \<Rightarrow> gomap" where
  "build_runCfg cfg =
     (let runCfg = [''serverAddr'' \<mapsto> VStr (Addr (Server cfg)),
                    ''serverPort'' \<mapsto> VInt (Port (Server cfg))];
          authCfg = [''method'' \<mapsto> ''token'', ''token'' \<mapsto> Token (Server cfg)];
          runCfg = runCfg(''auth'' \<mapsto> VStrMap authCfg);
          proxies = proxies_loop (Proxies cfg) []
      in runCfg(''proxies'' \<mapsto> VMaps proxies))"

text \<open>The proxy entries of the generated structure, read back from its \<open>proxies\<close> key.\<close>

definition generated_proxies :: "UserConfig \<Rightarrow> gomap list" where
  "generated_proxies cfg =
     (case build_runCfg cfg ''proxies'' of Some (VMaps ms) \<Rightarrow> ms | _ \<Rightarrow> [])"

section \<open>Errors and message literals\<close>

text \<open>
  A Go \<open>error\<close> is modelled by the text that its \<open>Error()\<close> method returns; \<open>nil\<close> is
  \<open>None\<close> of \<open>error option\<close>. \<open>fmt.Errorf(prefix + "%v", err)\<close> prepends a prefix.
\<close>

datatype error = errors_New string

fun Error :: "error \<Rightarrow> string" where
  "Error (errors_New m) = m"

definition fmt_Errorf :: "string \<Rightarrow> error \<Rightarrow> error" where
  "fmt_Errorf prefix err = errors_New (prefix @ Error err)"

text \<open>
  The message literals of the source are Chinese text; a Go string holds their UTF-8
  bytes, which are listed here with an English gloss.
\<close>

definition utf8 :: "nat list \<Rightarrow> string" where
  "utf8 bs = map char_of bs"

text \<open>"no valid configuration found" (\<open>generateFrpcToml\<close>).\<close>
definition msg_no_valid_config :: string where
  "msg_no_valid_config = utf8 [230, 156, 170, 229, 143, 145, 231, 142, 176, 230, 156, 137,
     230, 149, 136, 233, 133, 141, 231, 189, 174]"

text \<open>"formatting the configuration file failed: " (\<open>SaveUserConfig\<close>).\<close>
definition msg_format_failed :: string where
  "msg_format_failed = utf8 [233, 133, 141, 231, 189, 174, 230, 150, 135, 228, 187, 182,
     230, 160, 188, 229, 188, 143, 229, 140, 150, 229, 164, 177, 232, 180, 165, 58, 32]"

text \<open>"saving the file failed: " (\<open>SaveUserConfig\<close>).\<close>
definition msg_save_failed :: string where
  "msg_save_failed = utf8 [228, 191, 157, 229, 173, 152, 230, 150, 135, 228, 187, 182,
     229, 164, 177, 232, 180, 165, 58, 32]"

text \<open>"the service is already stopped" (\<open>Disconnect\<close>).\<close>
definition msg_already_stopped :: string where
  "msg_already_stopped = utf8 [230, 156, 141, 229, 138, 161, 230, 156, 172, 229, 176, 177,
     229, 164, 132, 228, 186, 142, 229, 129, 156, 230, 173, 162, 231, 138, 182, 230, 128, 129]"

text \<open>"stopping the process failed: " (\<open>Disconnect\<close>).\<close>
definition msg_stop_failed :: string where
  "msg_stop_failed = utf8 [229, 129, 156, 230, 173, 162, 232, 191, 155, 231, 168, 139,
     229, 164, 177, 232, 180, 165, 58, 32]"

text \<open>"the user disconnected by hand" (\<open>Disconnect\<close>).\<close>
definition msg_user_disconnect :: string where
  "msg_user_disconnect = utf8 [231, 148, 168, 230, 136, 183, 230, 137, 139, 229, 138, 168,
     230, 150, 173, 229, 188, 128, 232, 191, 158, 230, 142, 165]"

text \<open>"the service is disconnected" (\<open>Disconnect\<close>).\<close>
definition msg_disconnected :: string where
  "msg_disconnected = utf8 [230, 156, 141, 229, 138, 161, 229, 183, 178, 230, 150, 173,
     229, 188, 128]"

text \<open>"starting the frpc process failed:" (\<open>startFrp\<close>).\<close>
definition msg_spawn_failed :: string where
  "msg_spawn_failed = utf8 [102, 114, 112, 99, 32, 232, 191, 155, 231, 168, 139, 229, 144,
     175, 229, 138, 168, 229, 164, 177, 232, 180, 165, 239, 188, 154]"

text \<open>"warning: the frpc process has exited" (the exit waiter of \<open>startFrp\<close>).\<close>
definition msg_exited :: string where
  "msg_exited = utf8 [232, 173, 166, 229, 145, 138, 239, 188, 154, 102, 114, 112, 99, 32,
     232, 191, 155, 231, 168, 139, 229, 183, 178, 233, 128, 128, 229, 135, 186]"

section \<open>The platform and the world outside the service\<close>

text \<open>
  What the service takes from its libraries and its build, none of which is code of the
  repository, is a parameter: the per-user configuration directory of
  \<open>os.UserConfigDir\<close> (empty when that call fails; the source drops its error), the
  name of the executable (\<open>frpcTargetName\<close>), the embedded executable
  (\<open>frpcBin.ReadFile(frpcMap[arch])\<close>), the TOML encoder and decoder, and the rendering of
  a whole number of seconds in the layout \<open>time.RFC3339\<close>. The content of a file
  (\<open>[]byte\<close> in the source) is the type parameter \<open>'b\<close>.
\<close>

record 'b Platform =
  userConfigDir :: string
  frpcTargetName :: string
  embeddedFrpc :: "error + 'b"
  toml_Marshal_config :: "UserConfig \<Rightarrow> error + 'b"
  toml_Unmarshal_config :: "'b \<Rightarrow> error + UserConfig"
  toml_Marshal_runCfg :: "gomap \<Rightarrow> error + 'b"
  format_seconds :: "nat \<Rightarrow> string"

text \<open>
  The world is everything the service changes or reads outside its own struct: the
  clock (nanoseconds since the epoch, as \<open>time.Now()\<close> reads it), the files, the
  events published to the UI, and the flush tickers that are running.
  Every call of the operating system that can fail takes its outcome from a schedule:
  the head of the list decides the next call (\<open>None\<close> is success), an exhausted list
  means success. \<open>oslog\<close> records the writes, spawns and kills in the order they happen.
\<close>

datatype oscall =
    WriteFile_ok string
  | WriteFile_failed string
  | Start_ok string nat
  | Start_failed string
  | Kill_ok nat
  | Kill_failed nat

datatype payload = Lines "string list" | Text string

datatype event = Emit string payload

record 'b World =
  clock :: nat
  files :: "string \<Rightarrow> 'b option"
  writeErrs :: "error option list"
  readErrs :: "error option list"
  startErrs :: "error option list"
  killErrs :: "error option list"
  nextPid :: nat
  oslog :: "oscall list"
  events :: "event list"
  liveTickers :: nat
  ctxDone :: bool

fun pop :: "error option list \<Rightarrow> error option \<times> error option list" where
  "pop [] = (None, [])"
| "pop (e # es) = (e, es)"

text \<open>
  \<open>os.WriteFile\<close>: a write that fails leaves the files as they were (the failure is
  reported before any content changes, as when the file cannot be opened).
\<close>

definition os_WriteFile :: "string \<Rightarrow> 'b \<Rightarrow> 'b World \<Rightarrow> error option \<times> 'b World" where
  "os_WriteFile path data w =
     (case pop (writeErrs w) of
        (Some err, rest) \<Rightarrow>
          (Some err, w\<lparr>writeErrs := rest, oslog := oslog w @ [WriteFile_failed path]\<rparr>)
      | (None, rest) \<Rightarrow>
          (None, w\<lparr>files := (files w)(path \<mapsto> data), writeErrs := rest,
                     oslog := oslog w @ [WriteFile_ok path]\<rparr>))"

definition os_ReadFile :: "string \<Rightarrow> 'b World \<Rightarrow> (error + 'b) \<times> 'b World" where
  "os_ReadFile path w =
     (case pop (readErrs w) of
        (Some err, rest) \<Rightarrow> (Inl err, w\<lparr>readErrs := rest\<rparr>)
      | (None, rest) \<Rightarrow>
          (case files w path of
             None \<Rightarrow> (Inl (errors_New (''open '' @ path @ '': no such file or directory'')),
                      w\<lparr>readErrs := rest\<rparr>)
           | Some data \<Rightarrow> (Inr data, w\<lparr>readErrs := rest\<rparr>)))"

text \<open>
  Killing a process, by \<open>Process.Kill()\<close> or by running \<open>kill -9\<close> (\<open>taskkill\<close> on
  Windows).
\<close>

definition os_kill :: "nat \<Rightarrow> 'b World \<Rightarrow> error option \<times> 'b World" where
  "os_kill pid w =
     (case pop (killErrs w) of
        (Some err, rest) \<Rightarrow>
          (Some err, w\<lparr>killErrs := rest, oslog := oslog w @ [Kill_failed pid]\<rparr>)
      | (None, rest) \<Rightarrow>
          (None, w\<lparr>killErrs := rest, oslog := oslog w @ [Kill_ok pid]\<rparr>))"

text \<open>
  \<open>filepath.Join\<close> with the separator of macOS and Linux: empty elements are dropped and
  the rest joined by a slash. (The cleaning of dots and double separators that the
  library also does is left out; the elements joined here have none.)
\<close>

fun join_sep :: "string list \<Rightarrow> string" where
  "join_sep [] = []"
| "join_sep [e] = e"
| "join_sep (e # es) = e @ ''/'' @ join_sep es"

definition filepath_Join :: "string list \<Rightarrow> string" where
  "filepath_Join elems = join_sep (filter (\<lambda>e. e \<noteq> []) elems)"

text \<open>
  \<open>time.Now().Format(time.RFC3339)\<close>: the layout \<open>2006-01-02T15:04:05Z07:00\<close> has no
  fractional seconds, so the text is the rendering of the whole seconds of the instant.
  \<open>stamp_instant t\<close> is the instant, in nanoseconds, that the text written at \<open>t\<close> denotes.
\<close>

definition time_Format_RFC3339 :: "'b Platform \<Rightarrow> nat \<Rightarrow> string" where
  "time_Format_RFC3339 plat t = format_seconds plat (t div 1000000000)"

definition stamp_instant :: "nat \<Rightarrow> nat" where
  "stamp_instant t = (t div 1000000000) * 1000000000"

section \<open>The service\<close>

text \<open>
  \<open>exec.Cmd\<close>: its \<open>Process\<close> is nil until \<open>Start\<close> succeeds, then holds the process id.
\<close>

record Cmd =
  Path :: string
  Args :: "string list"
  Process :: "nat option"

text \<open>
  \<open>MoleService\<close>. \<open>mu\<close> is the state of the mutex \<open>s.mu\<close>: \<open>True\<close> while it is held
  exclusively. The context \<open>ctx\<close> is \<open>ctxDone\<close> of the world. The mutex \<open>logMu\<close> is never
  taken while it is held and is left out, and so is \<open>initWait\<close>, which only \<open>GetStatus\<close>
  reads.
\<close>

record MoleService =
  config :: "UserConfig option"
  isRunning :: bool
  frpCmd :: "Cmd option"
  logBuffer :: "string list"
  mu :: bool

record ServiceStatus =
  Success :: bool
  IsRunning :: bool
  Config :: "UserConfig option"
  Message :: string

text \<open>
  \<open>sync.RWMutex\<close> is not reentrant: \<open>Lock\<close> on a mutex that is held waits until it is
  released. No function of the service releases a mutex that it did not take itself, so
  in the run of one goroutine a \<open>Lock\<close> on the mutex that the same goroutine holds never
  returns. A function that takes the mutex returns an \<open>option\<close>: \<open>None\<close> is a call that
  does not return.
\<close>

definition Lock :: "MoleService \<Rightarrow> MoleService option" where
  "Lock s = (if mu s then None else Some (s\<lparr>mu := True\<rparr>))"

definition Unlock :: "MoleService \<Rightarrow> MoleService" where
  "Unlock s = s\<lparr>mu := False\<rparr>"

text \<open>
  The directories; \<open>os.MkdirAll\<close> (its error is dropped by the source) and the line
  that \<open>getAppConfigDir\<close> prints to the process log are not modelled.
\<close>

definition getFrpBinDir :: "'b Platform \<Rightarrow> string" where
  "getFrpBinDir plat = filepath_Join [userConfigDir plat, ''mole'', ''bin'']"

definition getAppConfigDir :: "'b Platform \<Rightarrow> string" where
  "getAppConfigDir plat = filepath_Join [userConfigDir plat, ''mole'', ''config'']"

definition emitLog :: "string list \<Rightarrow> 'b World \<Rightarrow> 'b World" where
  "emitLog logs w =
     (if length logs = 0 then w
      else w\<lparr>events := events w @ [Emit ''frp-logs'' (Lines logs)]\<rparr>)"

definition emitFrpStatus :: "string \<Rightarrow> 'b World \<Rightarrow> 'b World" where
  "emitFrpStatus status w = w\<lparr>events := events w @ [Emit ''frp-status'' (Text status)]\<rparr>"

definition generateFrpcToml :: "'b Platform \<Rightarrow> MoleService \<Rightarrow> 'b World \<Rightarrow> error option \<times> 'b World" where
  "generateFrpcToml plat s w =
     (case config s of
        None \<Rightarrow> (Some (errors_New msg_no_valid_config), w)
      | Some cfg \<Rightarrow>
          (let runCfg = build_runCfg cfg;
               frpcPath = filepath_Join [getFrpBinDir plat, ''frpc.toml'']
           in case toml_Marshal_runCfg plat runCfg of
                Inl err \<Rightarrow> (Some err, w)
              | Inr out \<Rightarrow> os_WriteFile frpcPath out w))"

definition loadConfigFromDisk ::
  "'b Platform \<Rightarrow> MoleService \<Rightarrow> 'b World \<Rightarrow> error option \<times> MoleService \<times> 'b World" where
  "loadConfigFromDisk plat s w =
     (let configPath = filepath_Join [getAppConfigDir plat, ''config.toml'']
      in case files w configPath of
           None \<Rightarrow>
             (Some (errors_New (''stat '' @ configPath @ '': no such file or directory'')), s, w)
         | Some _ \<Rightarrow>
             (case os_ReadFile configPath w of
                (Inl err, w1) \<Rightarrow> (Some err, s, w1)
              | (Inr data, w1) \<Rightarrow>
                  (case toml_Unmarshal_config plat data of
                     Inl err \<Rightarrow> (Some err, s, w1)
                   | Inr loadedConfig \<Rightarrow> (None, s\<lparr>config := Some loadedConfig\<rparr>, w1))))"

definition SaveUserConfig ::
  "'b Platform \<Rightarrow> UserConfig \<Rightarrow> MoleService \<Rightarrow> 'b World \<Rightarrow> (error option \<times> MoleService \<times> 'b World) option" where
  "SaveUserConfig plat newCfg s0 w =
     (case Lock s0 of
        None \<Rightarrow> None
      | Some s1 \<Rightarrow>
          (let cfg = newCfg\<lparr>ConfigVersion := ''1.0.0'',
                            LastUpdated := time_Format_RFC3339 plat (clock w)\<rparr>;
               s2 = s1\<lparr>config := Some cfg\<rparr>;
               configPath = filepath_Join [getAppConfigDir plat, ''config.toml'']
           in case toml_Marshal_config plat cfg of
                Inl err \<Rightarrow> Some (Some (fmt_Errorf msg_format_failed err), Unlock s2, w)
              | Inr data \<Rightarrow>
                  (case os_WriteFile configPath data w of
                     (Some err, w1) \<Rightarrow> Some (Some (fmt_Errorf msg_save_failed err), Unlock s2, w1)
                   | (None, w1) \<Rightarrow>
                       (case generateFrpcToml plat s2 w1 of
                          (res, w2) \<Rightarrow> Some (res, Unlock s2, w2)))))"

text \<open>
  \<open>prepareFrpEnv\<close>: the executable is written from the embedded copy when it is not
  there; the runtime configuration is generated when its file is not there, and the
  error of that call is dropped.
\<close>

definition prepareFrpEnv ::
  "'b Platform \<Rightarrow> MoleService \<Rightarrow> 'b World \<Rightarrow> (error + string \<times> string) \<times> 'b World" where
  "prepareFrpEnv plat s w =
     (let binDir = getFrpBinDir plat;
          frpcPath = filepath_Join [binDir, frpcTargetName plat];
          tomlPath = filepath_Join [binDir, ''frpc.toml'']
      in case (if files w frpcPath = None
               then (case embeddedFrpc plat of
                       Inl err \<Rightarrow> (Some err, w)
                     | Inr data \<Rightarrow> os_WriteFile frpcPath data w)
               else (None, w)) of
           (Some err, w1) \<Rightarrow> (Inl err, w1)
         | (None, w1) \<Rightarrow>
             (Inr (frpcPath, tomlPath),
              if files w1 tomlPath = None then snd (generateFrpcToml plat s w1) else w1))"

text \<open>The process that the service tracks: \<open>s.frpCmd != nil && s.frpCmd.Process != nil\<close>.\<close>

definition tracked_pid :: "MoleService \<Rightarrow> nat option" where
  "tracked_pid s = (case frpCmd s of None \<Rightarrow> None | Some c \<Rightarrow> Process c)"

text \<open>
  \<open>stopFrp\<close> takes the mutex, reads the process id, releases the mutex, kills the process
  (the result of the kill command is dropped) and clears the running flag.
\<close>

definition stopFrp :: "MoleService \<Rightarrow> 'b World \<Rightarrow> (MoleService \<times> 'b World) option" where
  "stopFrp s0 w =
     (case Lock s0 of
        None \<Rightarrow> None
      | Some s \<Rightarrow>
          (case tracked_pid s of
             None \<Rightarrow> Some (Unlock s, w)
           | Some pid \<Rightarrow>
               (let s1 = Unlock s
                in case os_kill pid w of
                     (_, w1) \<Rightarrow> Some (s1\<lparr>isRunning := False\<rparr>, w1))))"

text \<open>
  \<open>cmd.Start()\<close>: on success the process has the next free id.
\<close>

definition cmd_Start :: "Cmd \<Rightarrow> 'b World \<Rightarrow> (error + nat) \<times> 'b World" where
  "cmd_Start c w =
     (case pop (startErrs w) of
        (Some err, rest) \<Rightarrow>
          (Inl err, w\<lparr>startErrs := rest, oslog := oslog w @ [Start_failed (Path c)]\<rparr>)
      | (None, rest) \<Rightarrow>
          (Inr (nextPid w),
           w\<lparr>startErrs := rest, nextPid := Suc (nextPid w),
              oslog := oslog w @ [Start_ok (Path c) (nextPid w)]\<rparr>))"

text \<open>
  \<open>time.NewTicker\<close> and the goroutine around it in \<open>startFrp\<close>: the goroutine calls
  \<open>flushLogs\<close> on every tick and stops the ticker only when the context of the service is
  done. A ticker made after that is stopped at once. \<open>ctx_cancel\<close> is the end of the
  context.
\<close>

definition newFlushTicker :: "'b World \<Rightarrow> 'b World" where
  "newFlushTicker w = (if ctxDone w then w else w\<lparr>liveTickers := Suc (liveTickers w)\<rparr>)"

definition ctx_cancel :: "'b World \<Rightarrow> 'b World" where
  "ctx_cancel w = w\<lparr>liveTickers := 0, ctxDone := True\<rparr>"

text \<open>
  \<open>startFrp\<close>, up to the point where it has started its goroutines; what the two log
  readers and the exit waiter do later is \<open>readLog_line\<close> and \<open>exitWaiter\<close> below. The
  mutex is released on every return (\<open>defer s.mu.Unlock()\<close>). The pipes, whose errors
  the source drops, and the lines printed to the process log are not modelled.
\<close>

definition startFrp :: "'b Platform \<Rightarrow> MoleService \<Rightarrow> 'b World \<Rightarrow> (MoleService \<times> 'b World) option" where
  "startFrp plat s0 w =
     (case Lock s0 of
        None \<Rightarrow> None
      | Some s \<Rightarrow>
          if isRunning s then Some (Unlock s, w)
          else
            (case prepareFrpEnv plat s w of
               (Inl err, w1) \<Rightarrow> Some (Unlock s, w1)
             | (Inr (frpcPath, tomlPath), w1) \<Rightarrow>
                 (case generateFrpcToml plat s w1 of
                    (Some err, w2) \<Rightarrow> Some (Unlock s, w2)
                  | (None, w2) \<Rightarrow>
                      (case (if tracked_pid s \<noteq> None then stopFrp s w2 else Some (s, w2)) of
                         None \<Rightarrow> None
                       | Some (s1, w3) \<Rightarrow>
                           (let s2 = s1\<lparr>isRunning := False\<rparr>;
                                cmd = \<lparr>Path = frpcPath, Args = [frpcPath, ''-c'', tomlPath],
                                       Process = None\<rparr>;
                                s3 = s2\<lparr>frpCmd := Some cmd\<rparr>;
                                w4 = newFlushTicker w3
                            in case cmd_Start cmd w4 of
                                 (Inl err, w5) \<Rightarrow>
                                   Some (Unlock s3, emitLog [msg_spawn_failed, Error err] w5)
                               | (Inr pid, w5) \<Rightarrow>
                                   Some (Unlock (s3\<lparr>isRunning := True,
                                                    frpCmd := Some (cmd\<lparr>Process := Some pid\<rparr>)\<rparr>),
                                         emitFrpStatus ''start'' w5))))))"

text \<open>
  The goroutine that \<open>startFrp\<close> leaves waiting on the process, from the moment
  \<open>frpCmd.Wait()\<close> has returned.
\<close>

definition exitWaiter :: "MoleService \<Rightarrow> 'b World \<Rightarrow> (MoleService \<times> 'b World) option" where
  "exitWaiter s0 w =
     (case Lock s0 of
        None \<Rightarrow> None
      | Some s \<Rightarrow>
          (let s1 = s\<lparr>isRunning := False, frpCmd := None\<rparr>;
               w1 = emitLog [msg_exited] w;
               w2 = emitFrpStatus ''stop'' w1
           in Some (Unlock s1, w2)))"

text \<open>\<open>Disconnect\<close> takes no mutex and kills the tracked process itself.\<close>

definition Disconnect :: "MoleService \<Rightarrow> 'b World \<Rightarrow> ServiceStatus \<times> MoleService \<times> 'b World" where
  "Disconnect s w =
     (if \<not> isRunning s
      then (\<lparr>Success = True, IsRunning = False, Config = None,
              Message = msg_already_stopped\<rparr>, s, w)
      else
        (case (case tracked_pid s of None \<Rightarrow> (None, w) | Some pid \<Rightarrow> os_kill pid w) of
           (Some err, w1) \<Rightarrow>
             (\<lparr>Success = False, IsRunning = True, Config = None,
               Message = msg_stop_failed @ Error err\<rparr>, s, w1)
         | (None, w1) \<Rightarrow>
             (\<lparr>Success = True, IsRunning = False, Config = None,
               Message = msg_disconnected\<rparr>,
              s\<lparr>isRunning := False\<rparr>, emitLog [msg_user_disconnect] w1)))"

section \<open>Log aggregation\<close>

text \<open>One round of the loop of \<open>readLog\<close>: a line read from a pipe is appended.\<close>

definition readLog_line :: "string \<Rightarrow> MoleService \<Rightarrow> MoleService" where
  "readLog_line line s = s\<lparr>logBuffer := logBuffer s @ [line]\<rparr>"

definition readLog_lines :: "string list \<Rightarrow> MoleService \<Rightarrow> MoleService" where
  "readLog_lines ls s = fold readLog_line ls s"

text \<open>\<open>flushLogs\<close>: what a tick of a flush ticker runs.\<close>

definition flushLogs :: "MoleService \<Rightarrow> 'b World \<Rightarrow> MoleService \<times> 'b World" where
  "flushLogs s w =
     (if length (logBuffer s) = 0 then (s, w)
      else (let logsToSend = logBuffer s;
                s1 = s\<lparr>logBuffer := []\<rparr>
            in (s1, emitLog logsToSend w)))"

text \<open>The number of spawns, successful or not, in a log of operating-system calls.\<close>

fun is_spawn :: "oscall \<Rightarrow> bool" where
  "is_spawn (Start_ok _ _) = True"
| "is_spawn (Start_failed _) = True"
| "is_spawn _ = False"

definition spawn_attempts :: "oscall list \<Rightarrow> nat" where
  "spawn_attempts l = length (filter is_spawn l)"

section \<open>A platform, a configuration and states to run the model on\<close>

text \<open>
  A stand-in for the libraries: a file holds a document, the encoder wraps a value into
  its document and the decoder unwraps it; seconds are rendered as tally marks.
\<close>

datatype doc = ConfigDoc UserConfig | RunDoc gomap | Binary string

definition test_platform :: "doc Platform" where
  "test_platform =
     \<lparr>userConfigDir = ''/home/u/.config'',
      frpcTargetName = ''frpc'',
      embeddedFrpc = Inr (Binary ''frpc''),
      toml_Marshal_config = (\<lambda>c. Inr (ConfigDoc c)),
      toml_Unmarshal_config =
        (\<lambda>d. case d of ConfigDoc c \<Rightarrow> Inr c
                        | _ \<Rightarrow> Inl (errors_New ''toml: not a configuration'')),
      toml_Marshal_runCfg = (\<lambda>m. Inr (RunDoc m)),
      format_seconds = (\<lambda>n. replicate n (CHR ''I''))\<rparr>"

definition rule_web :: ProxyRule where
  "rule_web = \<lparr>ID = ''r1'', Enabled = True, ProxyType = ''http'', Name = ''web'',
     LocalIP = ''127.0.0.1'', LocalPort = 80, RemotePort = 0,
     Domains = [''a.example.com'']\<rparr>"

definition rule_ssh :: ProxyRule where
  "rule_ssh = \<lparr>ID = ''r2'', Enabled = False, ProxyType = ''tcp'', Name = ''ssh'',
     LocalIP = ''192.168.1.5'', LocalPort = 22, RemotePort = 6022, Domains = []\<rparr>"

definition rule_dns :: ProxyRule where
  "rule_dns = \<lparr>ID = ''r3'', Enabled = True, ProxyType = ''udp'', Name = ''dns'',
     LocalIP = [], LocalPort = 53, RemotePort = 6053, Domains = []\<rparr>"

definition test_config :: UserConfig where
  "test_config = \<lparr>ConfigVersion = [], LastUpdated = [],
     Server = \<lparr>Addr = ''frp.example.com'', Port = 7000, Token = ''secret'',
                Remark = ''home'', AutoStart = False\<rparr>,
     Proxies = [rule_web, rule_ssh, rule_dns]\<rparr>"

text \<open>
  A world with no file and no failure scheduled, its clock at 1.7 seconds; a service that
  has nothing configured; a service that has \<open>test_config\<close> and is idle; and a service
  that runs process 100.
\<close>

definition test_world :: "doc World" where
  "test_world = \<lparr>clock = 1700000000, files = Map.empty, writeErrs = [], readErrs = [],
     startErrs = [], killErrs = [], nextPid = 100, oslog = [], events = [],
     liveTickers = 0, ctxDone = False\<rparr>"

definition new_service :: MoleService where
  "new_service = \<lparr>config = None, isRunning = False, frpCmd = None, logBuffer = [],
     mu = False\<rparr>"

definition idle_service :: MoleService where
  "idle_service = new_service\<lparr>config := Some test_config\<rparr>"

definition running_service :: MoleService where
  "running_service = idle_service
     \<lparr>isRunning := True,
      frpCmd := Some \<lparr>Path = ''/home/u/.config/mole/bin/frpc'',
                       Args = [''/home/u/.config/mole/bin/frpc'', ''-c'',
                               ''/home/u/.config/mole/bin/frpc.toml''],
                       Process = Some 100\<rparr>\<rparr>"

text \<open>The world in which the executable and the runtime configuration are in place.\<close>

definition installed_world :: "doc World" where
  "installed_world = test_world
     \<lparr>files := [''/home/u/.config/mole/bin/frpc'' \<mapsto> Binary ''frpc'',
                 ''/home/u/.config/mole/bin/frpc.toml'' \<mapsto> RunDoc Map.empty]\<rparr>"


definition second_write_fails_world :: "doc World" where
  "second_write_fails_world =
     test_world\<lparr>writeErrs := [None, Some (errors_New ''no space left on device'')]\<rparr>"





section \<open>Facts shared by the proofs\<close>

lemmas fixture_defs = test_platform_def test_world_def new_service_def idle_service_def
  running_service_def installed_world_def test_config_def rule_web_def rule_ssh_def rule_dns_def

lemmas os_defs = os_WriteFile_def os_ReadFile_def os_kill_def cmd_Start_def filepath_Join_def
  getFrpBinDir_def getAppConfigDir_def emitLog_def emitFrpStatus_def Lock_def Unlock_def
  tracked_pid_def newFlushTicker_def

lemma proxies_loop_filter:
  "proxies_loop ps acc = acc @ map proxy_item (filter Enabled ps)"
  by (induction ps arbitrary: acc) simp_all

lemma build_runCfg_proxies:
  "build_runCfg cfg ''proxies'' = Some (VMaps (map proxy_item (filter Enabled (Proxies cfg))))"
  by (simp add: build_runCfg_def proxies_loop_filter)

lemma generated_proxies_eq:
  "generated_proxies cfg = map proxy_item (filter Enabled (Proxies cfg))"
  by (simp add: generated_proxies_def build_runCfg_proxies)

lemma readLog_lines_buffer: "logBuffer (readLog_lines ls s) = logBuffer s @ ls"
  unfolding readLog_lines_def
  by (induction ls arbitrary: s) (simp_all add: readLog_line_def)


lemmas eval_defs = SaveUserConfig_def loadConfigFromDisk_def generateFrpcToml_def
  prepareFrpEnv_def startFrp_def stopFrp_def exitWaiter_def Disconnect_def
  time_Format_RFC3339_def stamp_instant_def Let_def

text \<open>The generator and the preparation read nothing of the service but its configuration.\<close>

lemma generateFrpcToml_config_only:
  "config s = config s' \<Longrightarrow> generateFrpcToml plat s = generateFrpcToml plat s'"
  by (rule ext) (simp add: generateFrpcToml_def)

lemma prepareFrpEnv_config_only:
  assumes "config s = config s'"
  shows "prepareFrpEnv plat s = prepareFrpEnv plat s'"
  unfolding prepareFrpEnv_def generateFrpcToml_config_only [OF assms] by (rule refl)

lemma stopFrp_held: "mu s \<Longrightarrow> stopFrp s w = None"
  by (simp add: stopFrp_def Lock_def)


text \<open>What a write leaves alone.\<close>

lemma os_WriteFile_frame:
  fixes w :: "'b World"
  assumes "os_WriteFile path data w = (r, w')"
  shows "readErrs w' = readErrs w" "startErrs w' = startErrs w" "killErrs w' = killErrs w"
    "nextPid w' = nextPid w" "events w' = events w" "liveTickers w' = liveTickers w"
    "ctxDone w' = ctxDone w" "clock w' = clock w"
    "spawn_attempts (oslog w') = spawn_attempts (oslog w)"
    "p \<noteq> path \<Longrightarrow> files w' p = files w p"
    "r \<noteq> None \<Longrightarrow> files w' = files w"
    "r = None \<Longrightarrow> files w' path = Some data"
  using assms
  by (auto simp: os_WriteFile_def spawn_attempts_def split: prod.splits option.splits)

lemma generateFrpcToml_frame:
  fixes w :: "'b World"
  assumes "generateFrpcToml plat s w = (r, w')"
  shows "readErrs w' = readErrs w" "startErrs w' = startErrs w" "killErrs w' = killErrs w"
    "nextPid w' = nextPid w" "events w' = events w" "liveTickers w' = liveTickers w"
    "ctxDone w' = ctxDone w" "clock w' = clock w"
    "spawn_attempts (oslog w') = spawn_attempts (oslog w)"
    "p \<noteq> filepath_Join [getFrpBinDir plat, ''frpc.toml''] \<Longrightarrow> files w' p = files w p"
    "r \<noteq> None \<Longrightarrow> files w' = files w"
  using assms os_WriteFile_frame [of "filepath_Join [getFrpBinDir plat, ''frpc.toml'']" _ w r w']
  by (auto simp: generateFrpcToml_def Let_def split: option.splits sum.splits)

lemma prepareFrpEnv_frame:
  fixes w :: "'b World"
  assumes "prepareFrpEnv plat s w = (r, w')"
  shows "startErrs w' = startErrs w" "killErrs w' = killErrs w"
    "nextPid w' = nextPid w" "events w' = events w" "liveTickers w' = liveTickers w"
    "ctxDone w' = ctxDone w"
    "spawn_attempts (oslog w') = spawn_attempts (oslog w)"
proof -
  let ?bin = "filepath_Join [getFrpBinDir plat, frpcTargetName plat]"
  let ?toml = "filepath_Join [getFrpBinDir plat, ''frpc.toml'']"
  define st where "st = (if files w ?bin = None
               then (case embeddedFrpc plat of
                       Inl err \<Rightarrow> (Some err, w)
                     | Inr data \<Rightarrow> os_WriteFile ?bin data w)
               else (None, w))"
  obtain e w1 where st: "st = (e, w1)" by (cases st)
  have f1: "startErrs w1 = startErrs w \<and> killErrs w1 = killErrs w \<and>
    nextPid w1 = nextPid w \<and> events w1 = events w \<and> liveTickers w1 = liveTickers w \<and>
    ctxDone w1 = ctxDone w \<and> spawn_attempts (oslog w1) = spawn_attempts (oslog w)"
    using st os_WriteFile_frame [of ?bin _ w e w1]
    by (auto simp: st_def split: if_splits sum.splits)
  obtain g w2 where g: "generateFrpcToml plat s w1 = (g, w2)"
    by (cases "generateFrpcToml plat s w1")
  note f2 = generateFrpcToml_frame [OF g]
  have "w' = w1 \<or> w' = w2"
    using assms st g
    by (auto simp: prepareFrpEnv_def Let_def st_def [symmetric] split: option.splits if_splits)
  with f1 f2 show "startErrs w' = startErrs w" "killErrs w' = killErrs w"
    "nextPid w' = nextPid w" "events w' = events w" "liveTickers w' = liveTickers w"
    "ctxDone w' = ctxDone w"
    "spawn_attempts (oslog w') = spawn_attempts (oslog w)"
    by auto
qed




text \<open>How \<open>startFrp\<close> ends, by the step that decides it.\<close>

lemma startFrp_prepare_fails:
  fixes w :: "'b World"
  assumes "\<not> mu s" and "\<not> isRunning s" and "prepareFrpEnv plat s w = (Inl err, w1)"
  shows "startFrp plat s w = Some (s, w1)"
proof -
  have "prepareFrpEnv plat (s\<lparr>mu := True\<rparr>) w = (Inl err, w1)"
    using assms(3) prepareFrpEnv_config_only [of "s\<lparr>mu := True\<rparr>" s plat] by simp
  then show ?thesis
    using assms(1,2) by (simp add: startFrp_def Lock_def Unlock_def)
qed

lemma startFrp_generate_fails:
  fixes w :: "'b World"
  assumes "\<not> mu s" and "\<not> isRunning s" and "prepareFrpEnv plat s w = (Inr paths, w1)"
    and "generateFrpcToml plat s w1 = (Some err, w2)"
  shows "startFrp plat s w = Some (s, w2)"
proof -
  have "prepareFrpEnv plat (s\<lparr>mu := True\<rparr>) w = (Inr paths, w1)"
    using assms(3) prepareFrpEnv_config_only [of "s\<lparr>mu := True\<rparr>" s plat] by simp
  moreover have "generateFrpcToml plat (s\<lparr>mu := True\<rparr>) w1 = (Some err, w2)"
    using assms(4) generateFrpcToml_config_only [of "s\<lparr>mu := True\<rparr>" s plat] by simp
  ultimately show ?thesis
    using assms(1,2) by (simp add: startFrp_def Lock_def Unlock_def split: prod.splits)
qed

lemma startFrp_reaches_spawn:
  fixes w :: "'b World"
  assumes "\<not> mu s" and "\<not> isRunning s" and "tracked_pid s = None"
    and "prepareFrpEnv plat s w = (Inr (frpcPath, tomlPath), w1)"
    and "generateFrpcToml plat s w1 = (None, w2)"
  shows "startFrp plat s w =
    (let cmd = \<lparr>Path = frpcPath, Args = [frpcPath, ''-c'', tomlPath], Process = None\<rparr>
     in case cmd_Start cmd (newFlushTicker w2) of
          (Inl err, w5) \<Rightarrow>
            Some (s\<lparr>frpCmd := Some cmd\<rparr>, emitLog [msg_spawn_failed, Error err] w5)
        | (Inr pid, w5) \<Rightarrow>
            Some (s\<lparr>isRunning := True, frpCmd := Some (cmd\<lparr>Process := Some pid\<rparr>)\<rparr>,
                  emitFrpStatus ''start'' w5))"
proof -
  have "prepareFrpEnv plat (s\<lparr>mu := True\<rparr>) w = (Inr (frpcPath, tomlPath), w1)"
    using assms(4) prepareFrpEnv_config_only [of "s\<lparr>mu := True\<rparr>" s plat] by simp
  moreover have "generateFrpcToml plat (s\<lparr>mu := True\<rparr>) w1 = (None, w2)"
    using assms(5) generateFrpcToml_config_only [of "s\<lparr>mu := True\<rparr>" s plat] by simp
  moreover have "tracked_pid (s\<lparr>mu := True\<rparr>) = None"
    using assms(3) by (simp add: tracked_pid_def)
  ultimately show ?thesis
    using assms(1,2)
    by (simp add: startFrp_def Lock_def Unlock_def Let_def split: prod.splits sum.splits)
qed

lemma startFrp_stop_never_returns:
  fixes w :: "'b World"
  assumes "\<not> mu s" and "\<not> isRunning s" and "tracked_pid s \<noteq> None"
    and "prepareFrpEnv plat s w = (Inr paths, w1)"
    and "generateFrpcToml plat s w1 = (None, w2)"
  shows "startFrp plat s w = None"
proof -
  let ?s = "s\<lparr>mu := True\<rparr>"
  have "prepareFrpEnv plat ?s w = (Inr paths, w1)"
    using assms(4) prepareFrpEnv_config_only [of ?s s plat] by simp
  moreover have "generateFrpcToml plat ?s w1 = (None, w2)"
    using assms(5) generateFrpcToml_config_only [of ?s s plat] by simp
  moreover have "tracked_pid ?s \<noteq> None"
    using assms(3) by (simp add: tracked_pid_def)
  moreover have "stopFrp ?s w2 = None"
    by (simp add: stopFrp_held)
  ultimately show ?thesis
    using assms(1,2) by (simp add: startFrp_def Lock_def split: prod.splits)
qed

lemma startFrp_tickers:
  fixes w :: "'b World"
  assumes "startFrp plat s w = Some (s', w')"
  shows "ctxDone w' = ctxDone w \<and>
         spawn_attempts (oslog w') \<le> Suc (spawn_attempts (oslog w)) \<and>
         liveTickers w' =
           (if ctxDone w then liveTickers w
            else liveTickers w + (spawn_attempts (oslog w') - spawn_attempts (oslog w)))"
proof -
  have free: "\<not> mu s"
    using assms by (auto simp: startFrp_def Lock_def split: if_splits)
  show ?thesis
  proof (cases "isRunning s")
    case True
    with free assms have "w' = w"
      by (simp add: startFrp_def Lock_def)
    then show ?thesis by simp
  next
    case idle: False
    obtain r w1 where p: "prepareFrpEnv plat s w = (r, w1)"
      by (cases "prepareFrpEnv plat s w")
    note pf = prepareFrpEnv_frame(5,6,7) [OF p]
    show ?thesis
    proof (cases r)
      case (Inl err)
      with startFrp_prepare_fails [OF free idle, of plat w err w1] p assms
      have "w' = w1" by simp
      with pf show ?thesis by simp
    next
      case (Inr paths)
      obtain g w2 where g: "generateFrpcToml plat s w1 = (g, w2)"
        by (cases "generateFrpcToml plat s w1")
      note gf = generateFrpcToml_frame(6,7,9) [OF g]
      show ?thesis
      proof (cases g)
        case (Some err)
        with startFrp_generate_fails [OF free idle, of plat w paths w1 err w2] p g Inr assms
        have "w' = w2" by simp
        with pf gf show ?thesis by simp
      next
        case None
        have t: "tracked_pid s = None"
        proof (rule ccontr)
          assume "tracked_pid s \<noteq> None"
          from startFrp_stop_never_returns [OF free idle this, of plat w paths w1 w2]
            p g Inr None assms
          show False by simp
        qed
        obtain frpcPath tomlPath where paths: "paths = (frpcPath, tomlPath)" by (cases paths)
        have p': "prepareFrpEnv plat s w = (Inr (frpcPath, tomlPath), w1)"
          and g': "generateFrpcToml plat s w1 = (None, w2)"
          using p g Inr None paths by simp_all
        show ?thesis
          using assms pf gf
          by (cases "pop (startErrs w2)")
             (auto simp: startFrp_reaches_spawn [OF free idle t p' g'] Let_def cmd_Start_def
                newFlushTicker_def emitLog_def emitFrpStatus_def spawn_attempts_def
                split: option.splits if_splits)
      qed
    qed
  qed
qed

section \<open>The runtime configuration generator\<close>

text \<open>
  Claim C1. For every user configuration, the structure that \<open>generateFrpcToml\<close> builds
  holds under its key \<open>proxies\<close> exactly one entry for each enabled rule, in the order of
  the rules; a disabled rule has no entry. With N enabled and M disabled rules there are
  N entries, and N + M rules.
\<close>

theorem generate_keeps_enabled_in_order:
  "build_runCfg cfg ''proxies'' = Some (VMaps (generated_proxies cfg)) \<and>
   generated_proxies cfg = map proxy_item (filter Enabled (Proxies cfg)) \<and>
   length (generated_proxies cfg) = length (filter Enabled (Proxies cfg)) \<and>
   length (generated_proxies cfg) + length (filter (\<lambda>p. \<not> Enabled p) (Proxies cfg))
     = length (Proxies cfg)"
proof -
  have "length (filter Enabled ps) + length (filter (\<lambda>p. \<not> Enabled p) ps) = length ps"
    for ps :: "ProxyRule list"
    by (induction ps) simp_all
  then show ?thesis
    by (simp add: generated_proxies_eq build_runCfg_proxies)
qed

text \<open>
  Claim C2. The entry generated for an enabled rule of type \<open>http\<close> has the key
  \<open>customDomains\<close>, holding the domains of the rule, and no key \<open>remotePort\<close>; the entry
  for a rule of type \<open>tcp\<close> or \<open>udp\<close> has the key \<open>remotePort\<close> and no key
  \<open>customDomains\<close>.
\<close>

theorem generated_entry_fields:
  assumes "p \<in> set (Proxies cfg)" and "Enabled p"
  shows "proxy_item p \<in> set (generated_proxies cfg) \<and>
    (ProxyType p = ''http'' \<longrightarrow>
       proxy_item p ''customDomains'' = Some (VStrs (Domains p)) \<and>
       proxy_item p ''remotePort'' = None) \<and>
    (ProxyType p = ''tcp'' \<or> ProxyType p = ''udp'' \<longrightarrow>
       proxy_item p ''remotePort'' = Some (VInt (RemotePort p)) \<and>
       proxy_item p ''customDomains'' = None)"
proof -
  have "proxy_item p \<in> set (generated_proxies cfg)"
    using assms by (simp add: generated_proxies_eq)
  moreover have "ProxyType p = ''http'' \<Longrightarrow>
       proxy_item p ''customDomains'' = Some (VStrs (Domains p)) \<and>
       proxy_item p ''remotePort'' = None"
    by (simp add: proxy_item_def)
  moreover have "ProxyType p = ''tcp'' \<or> ProxyType p = ''udp'' \<Longrightarrow>
       proxy_item p ''remotePort'' = Some (VInt (RemotePort p)) \<and>
       proxy_item p ''customDomains'' = None"
    by (auto simp: proxy_item_def)
  ultimately show ?thesis by blast
qed

text \<open>The theorem at the rules \<open>rule_web\<close> (http) and \<open>rule_dns\<close> (udp) of \<open>test_config\<close>.\<close>

theorem generated_entry_fields_witness:
  "rule_web \<in> set (Proxies test_config) \<and> Enabled rule_web \<and> ProxyType rule_web = ''http'' \<and>
   proxy_item rule_web \<in> set (generated_proxies test_config) \<and>
   proxy_item rule_web ''customDomains'' = Some (VStrs [''a.example.com'']) \<and>
   proxy_item rule_web ''remotePort'' = None \<and>
   rule_dns \<in> set (Proxies test_config) \<and> Enabled rule_dns \<and> ProxyType rule_dns = ''udp'' \<and>
   proxy_item rule_dns \<in> set (generated_proxies test_config) \<and>
   proxy_item rule_dns ''remotePort'' = Some (VInt 6053) \<and>
   proxy_item rule_dns ''customDomains'' = None"
proof -
  have web: "rule_web \<in> set (Proxies test_config)" "Enabled rule_web"
    and dns: "rule_dns \<in> set (Proxies test_config)" "Enabled rule_dns"
    by (simp_all add: test_config_def rule_web_def rule_dns_def)
  have "ProxyType rule_web = ''http''" and "ProxyType rule_dns = ''udp''"
    and "Domains rule_web = [''a.example.com'']" and "RemotePort rule_dns = 6053"
    by (simp_all add: rule_web_def rule_dns_def)
  with generated_entry_fields [OF web] generated_entry_fields [OF dns] web dns
  show ?thesis by simp
qed

text \<open>
  Claim C9, as the spec states it, says that the entry of a rule with an empty \<open>localIP\<close>
  carries the loopback address. The generator copies the field: the enabled rule
  \<open>rule_dns\<close> has an empty \<open>localIP\<close>, and its entry, the second of \<open>test_config\<close>, has
  the empty string under \<open>localIP\<close>.
\<close>

theorem empty_localIP_is_passed_through:
  "LocalIP rule_dns = [] \<and> Enabled rule_dns \<and>
   generated_proxies test_config ! 1 = proxy_item rule_dns \<and>
   (generated_proxies test_config ! 1) ''localIP'' = Some (VStr []) \<and>
   (generated_proxies test_config ! 1) ''localIP'' \<noteq> Some (VStr ''127.0.0.1'')"
  by (simp add: generated_proxies_eq test_config_def rule_web_def rule_ssh_def rule_dns_def
      proxy_item_def)

text \<open>
  Claim C9, amended. The entry generated for a rule carries the \<open>localIP\<close> of the rule
  unchanged, the empty string when the rule has none: the generator applies no default.
\<close>

theorem generated_localIP_is_copied:
  "proxy_item p ''localIP'' = Some (VStr (LocalIP p)) \<and>
   map (\<lambda>item. item ''localIP'') (generated_proxies cfg)
     = map (\<lambda>p. Some (VStr (LocalIP p))) (filter Enabled (Proxies cfg))"
  by (simp add: generated_proxies_eq proxy_item_def Let_def)

section \<open>The log buffer\<close>

text \<open>
  Claim C8. A flush with an empty buffer publishes nothing and changes nothing. A flush
  with lines in the buffer publishes one \<open>frp-logs\<close> event that holds them in the order
  they were appended. The buffer is empty after every flush, so the next flush publishes
  exactly the lines \<open>ls\<close> that the readers appended since, as one event, and nothing when
  there are none.
\<close>

theorem flushLogs_one_batch:
  fixes w w' :: "'b World"
  shows "flushLogs s w =
     (if logBuffer s = [] then (s, w)
      else (s\<lparr>logBuffer := []\<rparr>,
            w\<lparr>events := events w @ [Emit ''frp-logs'' (Lines (logBuffer s))]\<rparr>)) \<and>
   logBuffer (fst (flushLogs s w)) = [] \<and>
   events (snd (flushLogs (readLog_lines ls (fst (flushLogs s w))) w')) =
     (if ls = [] then events w' else events w' @ [Emit ''frp-logs'' (Lines ls)])"
proof -
  have one: "flushLogs s w =
     (if logBuffer s = [] then (s, w)
      else (s\<lparr>logBuffer := []\<rparr>,
            w\<lparr>events := events w @ [Emit ''frp-logs'' (Lines (logBuffer s))]\<rparr>))"
    for s and w :: "'b World"
    by (simp add: flushLogs_def emitLog_def Let_def)
  have empty: "logBuffer (fst (flushLogs s w)) = []"
    by (simp add: one)
  have "logBuffer (readLog_lines ls (fst (flushLogs s w))) = ls"
    by (simp add: readLog_lines_buffer empty)
  then have "events (snd (flushLogs (readLog_lines ls (fst (flushLogs s w))) w')) =
     (if ls = [] then events w' else events w' @ [Emit ''frp-logs'' (Lines ls)])"
    by (simp add: one [of "readLog_lines ls (fst (flushLogs s w))" w'])
  with one empty show ?thesis by blast
qed

section \<open>Saving and loading the user configuration\<close>




text \<open>
  Claim C10. \<open>SaveUserConfig\<close> is not atomic over its two writes. When the user
  configuration has been encoded and written and the generation of the runtime
  configuration then fails (no encoding, or a failed write), \<open>SaveUserConfig\<close> returns
  that error, while the stamped configuration is the configuration of the service and
  is the content of \<open>config.toml\<close>.
\<close>

theorem SaveUserConfig_persists_before_generating:
  fixes w :: "'b World" and plat :: "'b Platform" and newCfg :: UserConfig
  defines "cfg \<equiv> newCfg\<lparr>ConfigVersion := ''1.0.0'',
                           LastUpdated := time_Format_RFC3339 plat (clock w)\<rparr>"
    and "configPath \<equiv> filepath_Join [getAppConfigDir plat, ''config.toml'']"
  assumes "\<not> mu s"
    and "toml_Marshal_config plat cfg = Inr data"
    and "os_WriteFile configPath data w = (None, w1)"
    and "generateFrpcToml plat (s\<lparr>config := Some cfg\<rparr>) w1 = (Some err, w2)"
  shows "SaveUserConfig plat newCfg s w = Some (Some err, s\<lparr>config := Some cfg\<rparr>, w2) \<and>
         files w2 configPath = Some data"
proof -
  have gen: "generateFrpcToml plat (s\<lparr>mu := True, config := Some cfg\<rparr>) w1 = (Some err, w2)"
    using assms(6) generateFrpcToml_config_only
      [of "s\<lparr>mu := True, config := Some cfg\<rparr>" "s\<lparr>config := Some cfg\<rparr>" plat]
    by simp
  have unl: "Unlock (s\<lparr>mu := True, config := Some cfg\<rparr>) = s\<lparr>config := Some cfg\<rparr>"
    using assms(3) by (simp add: Unlock_def)
  have "SaveUserConfig plat newCfg s w = Some (Some err, s\<lparr>config := Some cfg\<rparr>, w2)"
    using assms(3,4,5) gen unl
    by (simp add: SaveUserConfig_def Lock_def Let_def cfg_def [symmetric]
        configPath_def [symmetric])
  moreover have "files w2 configPath = Some data"
    using generateFrpcToml_frame(11) [OF assms(6)] os_WriteFile_frame(12) [OF assms(5)]
    by simp
  ultimately show ?thesis by simp
qed

text \<open>The theorem in a world where the first write succeeds and the second fails.\<close>

theorem SaveUserConfig_persists_witness:
  "(case SaveUserConfig test_platform test_config new_service second_write_fails_world of
      None \<Rightarrow> False
    | Some (res, s', w') \<Rightarrow>
        res = Some (errors_New ''no space left on device'') \<and>
        config s' = Some (test_config\<lparr>ConfigVersion := ''1.0.0'', LastUpdated := ''I''\<rparr>) \<and>
        files w' ''/home/u/.config/mole/config/config.toml'' =
          Some (ConfigDoc (test_config\<lparr>ConfigVersion := ''1.0.0'', LastUpdated := ''I''\<rparr>)) \<and>
        files w' ''/home/u/.config/mole/bin/frpc.toml'' = None)"
proof -
  let ?cfg = "test_config\<lparr>ConfigVersion := ''1.0.0'',
     LastUpdated := time_Format_RFC3339 test_platform (clock second_write_fails_world)\<rparr>"
  let ?path = "filepath_Join [getAppConfigDir test_platform, ''config.toml'']"
  let ?w1 = "second_write_fails_world
     \<lparr>files := [?path \<mapsto> ConfigDoc ?cfg],
      writeErrs := [Some (errors_New ''no space left on device'')],
      oslog := [WriteFile_ok ?path]\<rparr>"
  let ?w2 = "?w1\<lparr>writeErrs := [],
      oslog := [WriteFile_ok ?path,
                WriteFile_failed (filepath_Join [getFrpBinDir test_platform, ''frpc.toml''])]\<rparr>"
  have a: "\<not> mu new_service" by (simp add: new_service_def)
  have b: "toml_Marshal_config test_platform ?cfg = Inr (ConfigDoc ?cfg)"
    by (simp add: test_platform_def)
  have c: "os_WriteFile ?path (ConfigDoc ?cfg) second_write_fails_world = (None, ?w1)"
    by (simp add: os_WriteFile_def second_write_fails_world_def test_world_def)
  have d: "generateFrpcToml test_platform (new_service\<lparr>config := Some ?cfg\<rparr>) ?w1
      = (Some (errors_New ''no space left on device''), ?w2)"
    by (simp add: generateFrpcToml_def os_WriteFile_def second_write_fails_world_def
        test_world_def test_platform_def Let_def)
  have stamp: "time_Format_RFC3339 test_platform 1700000000 = ''I''"
    by (simp add: time_Format_RFC3339_def test_platform_def)
  have path: "?path = ''/home/u/.config/mole/config/config.toml''"
    and bin: "filepath_Join [getFrpBinDir test_platform, ''frpc.toml'']
       = ''/home/u/.config/mole/bin/frpc.toml''"
    by (simp_all add: filepath_Join_def getAppConfigDir_def getFrpBinDir_def test_platform_def)
  from SaveUserConfig_persists_before_generating [OF a b c d]
  show ?thesis
    by (simp add: stamp path second_write_fails_world_def test_world_def)
qed

section \<open>Starting and stopping the process\<close>

text \<open>
  Claim C4 says that a start with a process still tracked stops that process first and
  then goes on to spawn. In the code the start does not get that far: \<open>startFrp\<close> holds
  the mutex when it calls \<open>stopFrp\<close>, and \<open>stopFrp\<close> begins by taking the same mutex. For
  every service that is not marked running and tracks a process, once the environment
  is prepared and the runtime configuration written, \<open>startFrp\<close> never returns: the old
  process is not killed, no process is spawned and the mutex stays held.
\<close>

theorem startFrp_blocks_on_tracked_process:
  fixes w :: "'b World"
  assumes "\<not> mu s" and "\<not> isRunning s" and "tracked_pid s = Some pid"
    and "fst (prepareFrpEnv plat s w) = Inr paths"
    and "fst (generateFrpcToml plat s (snd (prepareFrpEnv plat s w))) = None"
  shows "startFrp plat s w = None"
proof -
  obtain w1 where p: "prepareFrpEnv plat s w = (Inr paths, w1)"
    using assms(4) by (cases "prepareFrpEnv plat s w") simp
  obtain w2 where g: "generateFrpcToml plat s w1 = (None, w2)"
    using assms(5) p by (cases "generateFrpcToml plat s w1") simp
  have "tracked_pid s \<noteq> None"
    using assms(3) by simp
  from startFrp_stop_never_returns [OF assms(1,2) this p g] show ?thesis .
qed

text \<open>
  The theorem at the state that a successful \<open>Disconnect\<close> leaves: the running flag is
  cleared, the command with process 100 is still in \<open>frpCmd\<close> until the exit waiter
  runs, and a start that comes first never returns.
\<close>

theorem startFrp_blocks_witness:
  "fst (Disconnect running_service installed_world) =
     \<lparr>Success = True, IsRunning = False, Config = None, Message = msg_disconnected\<rparr> \<and>
   \<not> mu (fst (snd (Disconnect running_service installed_world))) \<and>
   \<not> isRunning (fst (snd (Disconnect running_service installed_world))) \<and>
   tracked_pid (fst (snd (Disconnect running_service installed_world))) = Some 100 \<and>
   startFrp test_platform (fst (snd (Disconnect running_service installed_world)))
     (snd (snd (Disconnect running_service installed_world))) = None"
proof -
  let ?s = "fst (snd (Disconnect running_service installed_world))"
  let ?w = "snd (snd (Disconnect running_service installed_world))"
  have d: "Disconnect running_service installed_world =
     (\<lparr>Success = True, IsRunning = False, Config = None, Message = msg_disconnected\<rparr>,
      running_service\<lparr>isRunning := False\<rparr>,
      installed_world\<lparr>killErrs := [], oslog := [Kill_ok 100],
        events := [Emit ''frp-logs'' (Lines [msg_user_disconnect])]\<rparr>)"
    by (simp add: Disconnect_def fixture_defs os_defs)
  have a: "\<not> mu ?s" "\<not> isRunning ?s" "tracked_pid ?s = Some 100"
    by (simp_all add: d) (simp_all add: fixture_defs tracked_pid_def)
  have p: "fst (prepareFrpEnv test_platform ?s ?w) =
      Inr (''/home/u/.config/mole/bin/frpc'', ''/home/u/.config/mole/bin/frpc.toml'')"
    by (simp add: d) (simp add: prepareFrpEnv_def fixture_defs os_defs Let_def)
  have g: "fst (generateFrpcToml test_platform ?s (snd (prepareFrpEnv test_platform ?s ?w))) = None"
    by (simp add: d) (simp add: prepareFrpEnv_def generateFrpcToml_def fixture_defs os_defs Let_def)
  from startFrp_blocks_on_tracked_process [OF a p g] a d show ?thesis by simp
qed






section \<open>The flush tickers\<close>

text \<open>
  Claim C7, as the spec states it, says that there is never more than one live flush
  ticker. \<open>startFrp\<close> makes a ticker in every call that reaches the spawn: after a start,
  the exit of the process and a second start, two tickers are live.
\<close>

theorem two_starts_two_tickers:
  "(case startFrp test_platform idle_service installed_world of
      None \<Rightarrow> False
    | Some (s1, w1) \<Rightarrow>
        liveTickers w1 = 1 \<and>
        (case exitWaiter s1 w1 of
           None \<Rightarrow> False
         | Some (s2, w2) \<Rightarrow>
             \<not> isRunning s2 \<and> frpCmd s2 = None \<and>
             (case startFrp test_platform s2 w2 of
                None \<Rightarrow> False
              | Some (s3, w3) \<Rightarrow>
                  isRunning s3 \<and> tracked_pid s3 = Some 101 \<and> \<not> ctxDone w3 \<and>
                  liveTickers w3 = 2)))"
  by (simp add: eval_defs fixture_defs os_defs)

text \<open>
  Claim C7, amended. While the context of the service is not done, every call of
  \<open>startFrp\<close> that reaches the spawn, successful or not, adds one live flush ticker, and a
  call that does not reach it adds none. \<open>Disconnect\<close>, \<open>stopFrp\<close>, the exit waiter and a
  flush stop no ticker; the tickers stop when the context ends.
\<close>

theorem startFrp_one_ticker_per_spawn:
  fixes w :: "'b World"
  assumes "startFrp plat s w = Some (s', w')"
  shows "ctxDone w' = ctxDone w \<and>
         spawn_attempts (oslog w') \<le> Suc (spawn_attempts (oslog w)) \<and>
         liveTickers w' =
           (if ctxDone w then liveTickers w
            else liveTickers w + (spawn_attempts (oslog w') - spawn_attempts (oslog w))) \<and>
         liveTickers (snd (snd (Disconnect s w))) = liveTickers w \<and>
         liveTickers (snd (flushLogs s w)) = liveTickers w \<and>
         (case exitWaiter s w of None \<Rightarrow> True | Some (s1, w1) \<Rightarrow> liveTickers w1 = liveTickers w) \<and>
         (case stopFrp s w of None \<Rightarrow> True | Some (s1, w1) \<Rightarrow> liveTickers w1 = liveTickers w) \<and>
         liveTickers (ctx_cancel w') = 0"
proof -
  have "liveTickers (snd (snd (Disconnect s w))) = liveTickers w"
    by (auto simp: Disconnect_def os_kill_def emitLog_def split: option.splits prod.splits)
  moreover have "liveTickers (snd (flushLogs s w)) = liveTickers w"
    by (simp add: flushLogs_def emitLog_def Let_def)
  moreover have "case exitWaiter s w of None \<Rightarrow> True
      | Some (s1, w1) \<Rightarrow> liveTickers w1 = liveTickers w"
    by (simp add: exitWaiter_def Lock_def emitLog_def emitFrpStatus_def Let_def)
  moreover have "case stopFrp s w of None \<Rightarrow> True
      | Some (s1, w1) \<Rightarrow> liveTickers w1 = liveTickers w"
    by (auto simp: stopFrp_def Lock_def os_kill_def Let_def split: option.splits prod.splits)
  moreover have "liveTickers (ctx_cancel w') = 0"
    by (simp add: ctx_cancel_def)
  ultimately show ?thesis
    using startFrp_tickers [OF assms] by blast
qed

text \<open>The theorem at a first start in the world where everything is in place.\<close>

theorem startFrp_one_ticker_witness:
  "(case startFrp test_platform idle_service installed_world of
      None \<Rightarrow> False
    | Some (s', w') \<Rightarrow>
        \<not> ctxDone w' \<and> spawn_attempts (oslog w') = 1 \<and> liveTickers w' = 1 \<and>
        liveTickers (ctx_cancel w') = 0)"
proof -
  have r: "startFrp test_platform idle_service installed_world =
    Some (idle_service
           \<lparr>isRunning := True,
            frpCmd := Some \<lparr>Path = ''/home/u/.config/mole/bin/frpc'',
                       Args = [''/home/u/.config/mole/bin/frpc'', ''-c'',
                               ''/home/u/.config/mole/bin/frpc.toml''],
                       Process = Some 100\<rparr>\<rparr>,
          installed_world
           \<lparr>files := (files installed_world)
               (''/home/u/.config/mole/bin/frpc.toml'' \<mapsto> RunDoc (build_runCfg test_config)),
            nextPid := 101,
            oslog := [WriteFile_ok ''/home/u/.config/mole/bin/frpc.toml'',
                      Start_ok ''/home/u/.config/mole/bin/frpc'' 100],
            events := [Emit ''frp-status'' (Text ''start'')],
            liveTickers := 1\<rparr>)"
    by (simp add: startFrp_def stopFrp_def prepareFrpEnv_def generateFrpcToml_def Let_def
        idle_service_def new_service_def test_platform_def installed_world_def test_world_def
        os_defs)
  have z: "\<not> ctxDone installed_world" "spawn_attempts (oslog installed_world) = 0"
    "liveTickers installed_world = 0"
    by (simp_all add: installed_world_def test_world_def spawn_attempts_def)
  from startFrp_one_ticker_per_spawn [OF r] z
  show ?thesis by (simp add: r spawn_attempts_def)
qed

end
